theory Spec2Isabelle
  imports Complex_Main
begin

section \<open>Amount formatting of the blade component library\<close>

text \<open>
  The theory embeds the formatting functions of
  \<^verbatim>\<open>packages/blade/src/components/Amount/Amount.tsx\<close>:
  \<^verbatim>\<open>getFlooredFixed\<close>, \<^verbatim>\<open>addCommas\<close>, \<^verbatim>\<open>getHumanizedAmount\<close>,
  \<^verbatim>\<open>formatAmountWithSuffix\<close> and the development-mode checks of \<^verbatim>\<open>_Amount\<close>.

  Numbers. A JavaScript \<^verbatim>\<open>number\<close> is modelled as a rational: the finite numbers with
  exact arithmetic. \<^verbatim>\<open>NaN\<close>, the infinities and the negative zero are outside the model.
  Where the source would leave the finite numbers (a division by a zero threshold) or would
  work on a value that is not a number at all, the model stops with the outcome
  \<open>Unmodelled\<close>. The rounding of binary floating point does not show in the exact
  functions; \<open>getFlooredFixed64\<close> is \<^verbatim>\<open>getFlooredFixed\<close> with every operation rounded to
  binary64, for the property that the rounding decides.

  Library functions. \<^verbatim>\<open>Math.floor\<close> is \<open>floor\<close>. \<^verbatim>\<open>Number.prototype.toFixed\<close> and
  \<^verbatim>\<open>Number.prototype.toLocaleString\<close> belong to the JavaScript runtime, not to the
  repository; they are modelled after ECMA-262 and ECMA-402 on the finite numbers.
  \<^verbatim>\<open>Number.prototype.toString\<close> and the table \<^verbatim>\<open>getCurrencyAbbreviations\<close> (module
  \<^verbatim>\<open>amountTokens\<close>, whose source is not at hand) are parameters of the functions that
  use them.
\<close>

subsection \<open>Outcomes\<close>

datatype error =
    RangeError
  | BladeError (message: string) (moduleName: string)
  | Unmodelled

definition andThen :: "error + 'a \<Rightarrow> ('a \<Rightarrow> error + 'b) \<Rightarrow> error + 'b" where
  "andThen r f = (case r of Inl e \<Rightarrow> Inl e | Inr x \<Rightarrow> f x)"

subsection \<open>Decimal digits\<close>

definition digitChar :: "nat \<Rightarrow> char" where
  "digitChar n = ''0123456789'' ! (n mod 10)"

text \<open>The decimal digits of a natural number, most significant first.\<close>

fun digitsOf :: "nat \<Rightarrow> string" where
  "digitsOf n = (if n < 10 then [digitChar n] else digitsOf (n div 10) @ [digitChar n])"

declare digitsOf.simps [simp del]

text \<open>The \<open>m\<close> low-order decimal digits of \<open>n\<close>, most significant first, zeros included.\<close>

primrec lastDigits :: "nat \<Rightarrow> nat \<Rightarrow> string" where
  "lastDigits 0 n = []"
| "lastDigits (Suc m) n = lastDigits m (n div 10) @ [digitChar n]"

text \<open>
  \<open>sepEvery k c xs\<close> copies \<open>xs\<close> and puts a comma after the first \<open>c\<close> characters and
  then after every \<open>k\<close> characters, as long as characters remain.
\<close>

primrec sepEvery :: "nat \<Rightarrow> nat \<Rightarrow> string \<Rightarrow> string" where
  "sepEvery k c [] = []"
| "sepEvery k c (x # xs) =
     (case c of
        0 \<Rightarrow> CHR '','' # x # sepEvery k (k - 1) xs
      | Suc c' \<Rightarrow> x # sepEvery k c' xs)"

text \<open>
  Trailing zeros beyond the first \<open>m\<close> characters are dropped
  (\<^verbatim>\<open>minimumFractionDigits\<close> keeps the first \<open>m\<close>).
\<close>

definition trimZeros :: "nat \<Rightarrow> string \<Rightarrow> string" where
  "trimZeros m s = take m s @ rev (dropWhile (\<lambda>c. c = CHR ''0'') (rev (drop m s)))"

subsection \<open>The runtime's number formatting\<close>

text \<open>
  \<^verbatim>\<open>Number(x.toFixed(f))\<close>. ECMA-262, Number.prototype.toFixed: a RangeError when \<open>f\<close> is
  outside 0..100; a number of magnitude \<open>10^21\<close> or more is printed by ToString, which
  \<^verbatim>\<open>Number\<close> reads back unchanged; otherwise the result is \<open>n / 10^f\<close> for the integer \<open>n\<close>
  that makes \<open>n / 10^f - x\<close> closest to zero, the larger \<open>n\<close> on a tie, computed on the
  magnitude with the sign put back.
\<close>

definition Number_toFixed :: "rat \<Rightarrow> nat \<Rightarrow> error + rat" where
  "Number_toFixed x f =
     (if f > 100 then Inl RangeError
      else if \<bar>x\<bar> \<ge> 10 ^ 21 then Inr x
      else Inr (sgn x * of_int \<lfloor>\<bar>x\<bar> * 10 ^ f + 1 / 2\<rfloor> / 10 ^ f))"

datatype js_locale = en_IN | en_US

text \<open>
  Digit grouping of the two locales (CLDR): groups of three for \<^verbatim>\<open>en-US\<close>; for \<^verbatim>\<open>en-IN\<close>
  the last three digits, then groups of two.
\<close>

definition groupInteger :: "js_locale \<Rightarrow> string \<Rightarrow> string" where
  "groupInteger locale ds =
     rev (sepEvery (case locale of en_IN \<Rightarrow> 2 | en_US \<Rightarrow> 3) 3 (rev ds))"

text \<open>
  \<^verbatim>\<open>x.toLocaleString(locale, { minimumFractionDigits: d })\<close>. ECMA-402: a RangeError when
  \<open>d\<close> is outside 0..100; \<^verbatim>\<open>maximumFractionDigits\<close> defaults to \<open>max d 3\<close>; the magnitude is
  rounded to that many fraction digits, halves away from zero; trailing zeros are removed
  down to \<open>d\<close> fraction digits; the decimal point is printed only before a non-empty
  fraction; the integer digits are grouped; a negative number gets a leading minus sign.
\<close>

definition Number_toLocaleString :: "rat \<Rightarrow> js_locale \<Rightarrow> nat \<Rightarrow> error + string" where
  "Number_toLocaleString x locale minimumFractionDigits =
     (if minimumFractionDigits > 100 then Inl RangeError
      else
        let maximumFractionDigits = max minimumFractionDigits 3;
            n = nat \<lfloor>\<bar>x\<bar> * 10 ^ maximumFractionDigits + 1 / 2\<rfloor>;
            integer = groupInteger locale (digitsOf (n div 10 ^ maximumFractionDigits));
            fraction = trimZeros minimumFractionDigits (lastDigits maximumFractionDigits n)
        in Inr ((if x < 0 then ''-'' else '''') @ integer
                @ (if fraction = [] then [] else CHR ''.'' # fraction)))"

subsection \<open>The functions of Amount.tsx\<close>

type_synonym Currency = string

record currencyAbbreviation =
  abbr_value :: rat
  abbr_symbol :: string

text \<open>
  \<^verbatim>\<open>getFlooredFixed\<close>, lines 159 to 163. The factor is \<^verbatim>\<open>100 ** decimalPlaces\<close>, as the source
  has it. The number of decimal places is a natural number; the callers in this file pass
  0 and 2.
\<close>

definition getFlooredFixed :: "rat \<Rightarrow> nat \<Rightarrow> error + rat" where
  "getFlooredFixed val decimalPlaces =
     (let factor = 100 ^ decimalPlaces;
          roundedValue = of_int \<lfloor>val * factor\<rfloor> / factor
      in Number_toFixed roundedValue decimalPlaces)"

text \<open>\<^verbatim>\<open>addCommas\<close>, lines 165 to 170; the default \<^verbatim>\<open>decimalPlaces = 0\<close> is passed by the callers.\<close>

definition addCommas :: "rat \<Rightarrow> Currency \<Rightarrow> nat \<Rightarrow> error + string" where
  "addCommas amountValue currency decimalPlaces =
     (let locale = (if currency = ''INR'' then en_IN else en_US)
      in Number_toLocaleString amountValue locale decimalPlaces)"

text \<open>
  Line 179: \<^verbatim>\<open>abbreviations.find((abbr) => amountValue >= abbr.value)\<close>, the first rule of
  the currency's table, in the table's order, that the amount reaches.
\<close>

definition findAbbreviation ::
  "(Currency \<Rightarrow> currencyAbbreviation list) \<Rightarrow> rat \<Rightarrow> Currency \<Rightarrow> currencyAbbreviation option" where
  "findAbbreviation getCurrencyAbbreviations amountValue currency =
     List.find (\<lambda>abbr. amountValue \<ge> abbr_value abbr) (getCurrencyAbbreviations currency)"

text \<open>
  \<^verbatim>\<open>getHumanizedAmount\<close>, lines 176 to 187. A division by a zero threshold gives
  \<^verbatim>\<open>Infinity\<close> or \<^verbatim>\<open>NaN\<close> in the source and is \<open>Unmodelled\<close> here.
\<close>

definition getHumanizedAmount ::
  "(Currency \<Rightarrow> currencyAbbreviation list) \<Rightarrow> (rat \<Rightarrow> string) \<Rightarrow> rat \<Rightarrow> Currency \<Rightarrow> error + string" where
  "getHumanizedAmount getCurrencyAbbreviations toString amountValue currency =
     (case findAbbreviation getCurrencyAbbreviations amountValue currency of
        Some abbreviation \<Rightarrow>
          if abbr_value abbreviation = 0 then Inl Unmodelled
          else
            andThen (getFlooredFixed (amountValue / abbr_value abbreviation) 2)
              (\<lambda>formattedAmountValue.
                 andThen (addCommas formattedAmountValue currency 0)
                   (\<lambda>s. Inr (s @ abbr_symbol abbreviation)))
      | None \<Rightarrow> Inr (toString amountValue))"

text \<open>\<^verbatim>\<open>formatAmountWithSuffix\<close>, lines 195 to 214: the \<^verbatim>\<open>switch\<close> with its \<^verbatim>\<open>default\<close>.\<close>

definition formatAmountWithSuffix ::
  "(Currency \<Rightarrow> currencyAbbreviation list) \<Rightarrow> (rat \<Rightarrow> string) \<Rightarrow> string \<Rightarrow> rat \<Rightarrow> Currency
     \<Rightarrow> error + string" where
  "formatAmountWithSuffix getCurrencyAbbreviations toString suffix val currency =
     (if suffix = ''decimals'' then
        andThen (getFlooredFixed val 2) (\<lambda>decimalNumber. addCommas decimalNumber currency 2)
      else if suffix = ''humanize'' then
        getHumanizedAmount getCurrencyAbbreviations toString val currency
      else if suffix = ''none'' then
        andThen (getFlooredFixed val 0) (\<lambda>n. addCommas n currency 0)
      else
        andThen (getFlooredFixed val 0) (\<lambda>n. addCommas n currency 0))"

subsection \<open>The development-mode checks of the Amount component\<close>

text \<open>
  The \<^verbatim>\<open>value\<close> prop as the component may receive it at run time: a number, or a value of
  another type.
\<close>

datatype js_value =
    JSNumber rat
  | JSString string
  | JSBoolean bool
  | JSUndefined
  | JSNull

fun typeof :: "js_value \<Rightarrow> string" where
  "typeof (JSNumber x) = ''number''"
| "typeof (JSString s) = ''string''"
| "typeof (JSBoolean b) = ''boolean''"
| "typeof JSUndefined = ''undefined''"
| "typeof JSNull = ''object''"

text \<open>
  Modelled from the spec: \<^verbatim>\<open>throwBladeError\<close> of the module \<^verbatim>\<open>~utils/logger\<close> is not among
  the sources at hand. The specification calls what it produces a descriptive diagnostic
  that rejects the input; it is modelled as raising an error that carries the message and
  the module name.
\<close>

definition throwBladeError :: "string \<Rightarrow> string \<Rightarrow> error + 'a" where
  "throwBladeError msg modName = Inl (BladeError msg modName)"

text \<open>
  \<^verbatim>\<open>_Amount\<close>, lines 224 to 252: the checks under \<^verbatim>\<open>__DEV__\<close> and the computation of
  \<^verbatim>\<open>renderedValue\<close>. The argument \<open>DEV\<close> is the build flag \<^verbatim>\<open>__DEV__\<close>; \<open>intent\<close> is \<open>None\<close>
  when the prop is absent. The lookup of the currency prefix and the element tree built
  from the rendered string are not modelled. A value that is not a number and passes
  because the checks are off is \<open>Unmodelled\<close>.
\<close>

definition Amount ::
  "(Currency \<Rightarrow> currencyAbbreviation list) \<Rightarrow> (rat \<Rightarrow> string) \<Rightarrow> bool \<Rightarrow> js_value \<Rightarrow> string
     \<Rightarrow> string option \<Rightarrow> Currency \<Rightarrow> error + string" where
  "Amount getCurrencyAbbreviations toString DEV val suffix intent currency =
     (if DEV \<and> typeof val \<noteq> ''number'' then
        throwBladeError ''`value` prop must be of type `number` for Amount.'' ''Amount''
      else if DEV \<and> intent = Some ''neutral'' then
        throwBladeError ''`neutral` intent is not supported.'' ''Amount''
      else
        (case val of
           JSNumber v \<Rightarrow> formatAmountWithSuffix getCurrencyAbbreviations toString suffix v currency
         | _ \<Rightarrow> Inl Unmodelled))"

subsection \<open>getFlooredFixed on binary64 numbers\<close>

text \<open>
  The functions above compute on exact rationals. A JavaScript \<^verbatim>\<open>number\<close> is an IEEE 754
  binary64 value, and every arithmetic operation returns the binary64 value nearest to the
  exact result, ties to the even significand. Where this rounding decides a property of
  \<^verbatim>\<open>getFlooredFixed\<close>, the function is taken in the form below, in which a finite binary64
  number is the rational it denotes and each operation of the source is followed by the
  rounding.
\<close>









subsection \<open>Auxiliary definitions for the statements\<close>

text \<open>The characters of a formatted amount after its first decimal point.\<close>

definition fractionDigits :: "string \<Rightarrow> string" where
  "fractionDigits s = drop 1 (dropWhile (\<lambda>c. c \<noteq> CHR ''.'') s)"

text \<open>
  An abbreviation table for the instances below, the same for every currency, in line with
  the examples in the comment above \<^verbatim>\<open>getHumanizedAmount\<close> (2000 gives 2K, 2000000 gives 2M).
\<close>

definition sampleAbbreviations :: "Currency \<Rightarrow> currencyAbbreviation list" where
  "sampleAbbreviations currency =
     [\<lparr>abbr_value = 1000000, abbr_symbol = ''M''\<rparr>, \<lparr>abbr_value = 1000, abbr_symbol = ''K''\<rparr>]"

text \<open>
  \<^verbatim>\<open>Number.prototype.toString\<close> on an integer of magnitude below \<open>10^21\<close>: the decimal digits,
  after a minus sign when negative. Used to instantiate the parameter \<open>toString\<close>.
\<close>

definition integerToString :: "int \<Rightarrow> string" where
  "integerToString i = (if i < 0 then ''-'' else []) @ digitsOf (nat \<bar>i\<bar>)"

section \<open>Evaluation of the formatting functions\<close>

lemma floor_rat_numeral_div:
  "\<lfloor>numeral a / numeral b :: rat\<rfloor> = numeral a div numeral b"
  using floor_divide_of_int_eq [of "numeral a" "numeral b", where ?'a = rat] by simp

lemma floor_rat_one_div: "\<lfloor>1 / numeral b :: rat\<rfloor> = 1 div numeral b"
  using floor_divide_of_int_eq [of 1 "numeral b", where ?'a = rat] by simp

lemma floor_add_half: "\<lfloor>of_int z + 1 / 2 :: rat\<rfloor> = z"
  by (simp add: floor_eq_iff)

lemma lastDigits_numeral:
  "lastDigits (numeral k) n = lastDigits (pred_numeral k) (n div 10) @ [digitChar n]"
  using lastDigits.simps(2) [of "pred_numeral k" n]
  by (simp only: numeral_eq_Suc [of k, symmetric])

lemma digitsOf_small: "n < 10 \<Longrightarrow> digitsOf n = [digitChar n]"
  by (subst digitsOf.simps) simp

lemma digitsOf_large: "10 \<le> n \<Longrightarrow> digitsOf n = digitsOf (n div 10) @ [digitChar n]"
  by (subst digitsOf.simps) simp

lemmas format_eval =
  addCommas_def Number_toLocaleString_def groupInteger_def digitsOf_small digitsOf_large
  digitChar_def trimZeros_def Let_def floor_rat_numeral_div floor_rat_one_div
  lastDigits_numeral

lemmas floored_eval =
  getFlooredFixed_def Number_toFixed_def floor_rat_numeral_div floor_rat_one_div

lemma addCommas_1234_57: "addCommas (123457 / 100) ''INR'' 2 = Inr ''1,234.57''"
  by (simp add: format_eval)

lemma addCommas_1234567: "addCommas 1234567 ''USD'' 0 = Inr ''1,234,567''"
  by (simp add: format_eval)

lemma addCommas_2: "addCommas 2 ''INR'' 0 = Inr ''2''"
  by (simp add: format_eval)

lemma addCommas_1: "addCommas 1 ''INR'' 0 = Inr ''1''"
  by (simp add: format_eval)

lemma addCommas_999: "addCommas 999 ''INR'' 2 = Inr ''999.00''"
  by (simp add: format_eval)

lemma addCommas_1_5: "addCommas (3 / 2) ''USD'' 0 = Inr ''1.5''"
  by (simp add: format_eval)

lemma getFlooredFixed_1234_567: "getFlooredFixed (1234567 / 1000) 2 = Inr (123457 / 100)"
  by (simp add: floored_eval)

lemma getFlooredFixed_1234567: "getFlooredFixed 1234567 0 = Inr 1234567"
  by (simp add: floored_eval)

lemma getFlooredFixed_1_999: "getFlooredFixed (1999 / 1000) 2 = Inr 2"
  by (simp add: floored_eval)

lemma getFlooredFixed_1: "getFlooredFixed 1 2 = Inr 1"
  by (simp add: floored_eval)

section \<open>When the functions return\<close>

lemma getFlooredFixed_returns: "d \<le> 100 \<Longrightarrow> \<exists>r. getFlooredFixed v d = Inr r"
  by (simp add: getFlooredFixed_def Number_toFixed_def Let_def)

lemma Number_toLocaleString_returns:
  "d \<le> 100 \<Longrightarrow> \<exists>s. Number_toLocaleString x l d = Inr s"
  by (simp add: Number_toLocaleString_def Let_def)

lemma addCommas_returns: "d \<le> 100 \<Longrightarrow> \<exists>s. addCommas x c d = Inr s"
  by (simp add: addCommas_def Number_toLocaleString_returns)

lemma floored_then_commas_returns:
  assumes "d \<le> 100" and "d' \<le> 100"
  shows "\<exists>s. andThen (getFlooredFixed v d) (\<lambda>x. addCommas x c d') = Inr s"
proof -
  from getFlooredFixed_returns [OF assms(1), of v] obtain r
    where "getFlooredFixed v d = Inr r" ..
  with addCommas_returns [OF assms(2), of r c] show ?thesis
    by (simp add: andThen_def)
qed

lemma getHumanizedAmount_no_BladeError:
  "getHumanizedAmount tbl toStr v cur \<noteq> Inl (BladeError msg m)"
proof (cases "findAbbreviation tbl v cur")
  case None
  then show ?thesis by (simp add: getHumanizedAmount_def)
next
  case (Some a)
  from getFlooredFixed_returns [of 2 "v / abbr_value a"] obtain r
    where r: "getFlooredFixed (v / abbr_value a) 2 = Inr r" by auto
  from addCommas_returns [of 0 r cur] obtain s where "addCommas r cur 0 = Inr s" by auto
  with Some r show ?thesis by (simp add: getHumanizedAmount_def andThen_def)
qed

lemma formatAmountWithSuffix_no_BladeError:
  "formatAmountWithSuffix tbl toStr suffix v cur \<noteq> Inl (BladeError msg m)"
proof -
  from floored_then_commas_returns [of 2 2 v cur] obtain s2
    where "andThen (getFlooredFixed v 2) (\<lambda>x. addCommas x cur 2) = Inr s2" by auto
  moreover from floored_then_commas_returns [of 0 0 v cur] obtain s0
    where "andThen (getFlooredFixed v 0) (\<lambda>x. addCommas x cur 0) = Inr s0" by auto
  ultimately show ?thesis
    by (simp add: formatAmountWithSuffix_def getHumanizedAmount_no_BladeError)
qed

section \<open>Arithmetic helpers\<close>



section \<open>The characters of a formatted amount\<close>

lemma digitChar_digit: "digitChar n \<in> set ''0123456789''"
proof -
  have "n mod 10 < length ''0123456789''" by simp
  then show ?thesis unfolding digitChar_def by (rule nth_mem)
qed

lemma digitChar_zero: "digitChar (10 * n) = CHR ''0''"
  by (simp add: digitChar_def)

lemma digitsOf_digits: "set (digitsOf n) \<subseteq> set ''0123456789''"
proof (induction n rule: digitsOf.induct)
  case (1 n)
  show ?case
  proof (cases "n < 10")
    case True
    with digitChar_digit [of n] show ?thesis by (simp add: digitsOf_small)
  next
    case False
    with "1.IH" digitChar_digit [of n] show ?thesis by (simp add: digitsOf_large)
  qed
qed

lemma lastDigits_digits: "set (lastDigits m n) \<subseteq> set ''0123456789''"
proof (induction m arbitrary: n)
  case 0
  show ?case by simp
next
  case (Suc m)
  from Suc [of "n div 10"] digitChar_digit [of n] show ?case by simp
qed

lemma length_lastDigits: "length (lastDigits m n) = m"
  by (induction m arbitrary: n) simp_all

lemma lastDigits_scaled:
  "lastDigits (d + j) (a * 10 ^ j) = lastDigits d a @ replicate j (CHR ''0'')"
proof (induction j)
  case 0
  show ?case by simp
next
  case (Suc j)
  have "a * 10 ^ Suc j = 10 * (a * 10 ^ j)" by simp
  then have "lastDigits (Suc (d + j)) (a * 10 ^ Suc j)
      = lastDigits (d + j) (a * 10 ^ j) @ [CHR ''0'']"
    by (simp only: lastDigits.simps digitChar_zero nonzero_mult_div_cancel_left)
  with Suc show ?case by (simp add: replicate_append_same)
qed

lemma sepEvery_chars: "set (sepEvery k c xs) \<subseteq> insert (CHR '','') (set xs)"
  by (induction xs arbitrary: c) (auto split: nat.splits)

lemma groupInteger_digits:
  "set (groupInteger l (digitsOf n)) \<subseteq> insert (CHR '','') (set ''0123456789'')"
  using sepEvery_chars [of _ 3 "rev (digitsOf n)"] digitsOf_digits [of n]
  unfolding groupInteger_def by (simp only: set_rev) blast

lemma fractionDigits_after_point:
  assumes "CHR ''.'' \<notin> set pre"
  shows "fractionDigits (pre @ (if f = [] then [] else CHR ''.'' # f)) = f"
proof -
  from assms have "dropWhile (\<lambda>c. c \<noteq> CHR ''.'') (pre @ ys)
      = dropWhile (\<lambda>c. c \<noteq> CHR ''.'') ys" for ys
    by (intro dropWhile_append2) auto
  then show ?thesis by (simp add: fractionDigits_def)
qed

lemma length_trimZeros_lower: "m \<le> length s \<Longrightarrow> m \<le> length (trimZeros m s)"
  by (simp add: trimZeros_def)

lemma length_trimZeros_upper: "length (trimZeros m s) \<le> length s"
proof -
  have "length (dropWhile (\<lambda>c. c = CHR ''0'') (rev (drop m s))) \<le> length (rev (drop m s))"
    by (rule length_dropWhile_le)
  then show ?thesis by (simp add: trimZeros_def)
qed

lemma set_trimZeros: "set (trimZeros m s) \<subseteq> set s"
proof -
  have "set (dropWhile (\<lambda>c. c = CHR ''0'') (rev (drop m s))) \<subseteq> set (rev (drop m s))"
    by (rule set_dropWhileD [THEN subsetI])
  moreover have "set (drop m s) \<subseteq> set s" by (rule set_drop_subset)
  moreover have "set (take m s) \<subseteq> set s" by (rule set_take_subset)
  ultimately show ?thesis by (auto simp: trimZeros_def)
qed

lemma trimZeros_padded:
  "length xs = m \<Longrightarrow> trimZeros m (xs @ replicate j (CHR ''0'')) = xs"
  by (simp add: trimZeros_def)

lemma rounded_scaled:
  assumes "v * 10 ^ d \<in> \<int>"
  shows "nat \<lfloor>\<bar>v :: rat\<bar> * 10 ^ (d + j) + 1 / 2\<rfloor> = nat \<lfloor>\<bar>v\<bar> * 10 ^ d\<rfloor> * 10 ^ j"
proof -
  from assms obtain k where k: "v * 10 ^ d = of_int k" by (rule Ints_cases)
  have "\<bar>v\<bar> * 10 ^ d = \<bar>v * 10 ^ d\<bar>" by (simp add: abs_mult)
  with k have a: "\<bar>v\<bar> * 10 ^ d = of_int \<bar>k\<bar>" by simp
  have "\<bar>v\<bar> * 10 ^ (d + j) = (\<bar>v\<bar> * 10 ^ d) * 10 ^ j" by (simp add: power_add)
  with a have "\<bar>v\<bar> * 10 ^ (d + j) = of_int (\<bar>k\<bar> * 10 ^ j)" by simp
  then have "\<lfloor>\<bar>v\<bar> * 10 ^ (d + j) + 1 / 2\<rfloor> = \<bar>k\<bar> * 10 ^ j"
    by (simp only: floor_add_half)
  moreover from a have "\<lfloor>\<bar>v\<bar> * 10 ^ d\<rfloor> = \<bar>k\<bar>" by (simp only: floor_of_int)
  ultimately show ?thesis by (simp add: nat_mult_distrib nat_power_eq)
qed

lemma Number_toLocaleString_fraction:
  assumes "d \<le> 100"
  shows "\<exists>s. Number_toLocaleString v l d = Inr s
     \<and> fractionDigits s
         = trimZeros d (lastDigits (max d 3) (nat \<lfloor>\<bar>v\<bar> * 10 ^ max d 3 + 1 / 2\<rfloor>))"
proof -
  define n where "n = nat \<lfloor>\<bar>v\<bar> * 10 ^ max d 3 + 1 / 2\<rfloor>"
  define pre where
    "pre = (if v < 0 then ''-'' else []) @ groupInteger l (digitsOf (n div 10 ^ max d 3))"
  define f where "f = trimZeros d (lastDigits (max d 3) n)"
  from assms have
    "Number_toLocaleString v l d = Inr (pre @ (if f = [] then [] else CHR ''.'' # f))"
    by (simp add: Number_toLocaleString_def Let_def n_def pre_def f_def)
  moreover have "CHR ''.'' \<notin> set pre"
    using groupInteger_digits [of l "n div 10 ^ max d 3"] by (auto simp: pre_def)
  then have "fractionDigits (pre @ (if f = [] then [] else CHR ''.'' # f)) = f"
    by (rule fractionDigits_after_point)
  ultimately show ?thesis by (simp add: f_def n_def)
qed

section \<open>Rounding to binary64\<close>



















subsection \<open>Evaluation on binary64 numbers\<close>


















subsection \<open>getFlooredFixed on a bounded range\<close>















section \<open>The claims\<close>

text \<open>
  C1. For a non-negative value \<open>v\<close> and a number \<open>d\<close> of decimal places, the result of
  \<^verbatim>\<open>getFlooredFixed(v, d)\<close> should never exceed \<open>v\<close>. The code scales by \<open>100^d\<close>, not
  \<open>10^d\<close>, so the floor keeps \<open>2 * d\<close> fraction digits and \<^verbatim>\<open>toFixed(d)\<close> then rounds to
  the nearest: at \<open>v = 0.1875\<close> and \<open>d = 2\<close> the result is \<open>0.19\<close>, above \<open>v\<close>.
\<close>

theorem getFlooredFixed_rounds_up:
  "getFlooredFixed (3 / 16) 2 = Inr (19 / 100) \<and> (3 / 16 :: rat) < 19 / 100"
  by (simp add: floored_eval)

text \<open>
  C2. \<^verbatim>\<open>formatAmountWithSuffix\<close> at the value 1234.567, the currency INR and the suffix
  \<^verbatim>\<open>decimals\<close> should give \<^verbatim>\<open>1,234.56\<close>. The code gives \<^verbatim>\<open>1,234.57\<close>, whatever the abbreviation
  table and \<^verbatim>\<open>toString\<close> are.
\<close>

theorem formatAmountWithSuffix_decimals_1234_567:
  "formatAmountWithSuffix tbl toStr ''decimals'' (1234567 / 1000) ''INR'' = Inr ''1,234.57''"
  by (simp add: formatAmountWithSuffix_def andThen_def getFlooredFixed_1234_567
      addCommas_1234_57)

text \<open>
  C3, as stated: for every value and every number of decimal places, the string that
  \<^verbatim>\<open>addCommas\<close> returns has exactly \<^verbatim>\<open>decimalPlaces\<close> digits after the decimal point. It
  fails at the value 1.5 with no decimal places asked for: the result is \<^verbatim>\<open>1.5\<close>, with
  one digit after the point. And with 101 decimal places no string is returned at all.
\<close>

theorem addCommas_fraction_digits_counterexample:
  "addCommas (3 / 2) ''USD'' 0 = Inr ''1.5'' \<and> length (fractionDigits ''1.5'') \<noteq> 0
   \<and> addCommas 1 ''USD'' 101 = Inl RangeError"
  by (simp add: addCommas_1_5 fractionDigits_def)
     (simp add: addCommas_def Number_toLocaleString_def)

text \<open>
  C3, amended. For every value, every currency and every \<^verbatim>\<open>decimalPlaces\<close> from 0 to 100,
  \<^verbatim>\<open>addCommas\<close> returns a string; what follows its decimal point are decimal digits, at
  least \<^verbatim>\<open>decimalPlaces\<close> of them (zero-padded) and at most the larger of \<^verbatim>\<open>decimalPlaces\<close>
  and 3; there are exactly \<^verbatim>\<open>decimalPlaces\<close> of them when the value has no more than
  \<^verbatim>\<open>decimalPlaces\<close> fraction digits.
\<close>

theorem addCommas_fraction_digits:
  assumes "decimalPlaces \<le> 100"
  shows "\<exists>s. addCommas v cur decimalPlaces = Inr s
     \<and> decimalPlaces \<le> length (fractionDigits s)
     \<and> length (fractionDigits s) \<le> max decimalPlaces 3
     \<and> set (fractionDigits s) \<subseteq> set ''0123456789''
     \<and> (v * 10 ^ decimalPlaces \<in> \<int> \<longrightarrow> length (fractionDigits s) = decimalPlaces)"
proof -
  define l where "l = (if cur = ''INR'' then en_IN else en_US)"
  define M where "M = max decimalPlaces 3"
  define n where "n = nat \<lfloor>\<bar>v\<bar> * 10 ^ M + 1 / 2\<rfloor>"
  from Number_toLocaleString_fraction [OF assms, of v l] obtain s
    where s: "addCommas v cur decimalPlaces = Inr s"
      and fr: "fractionDigits s = trimZeros decimalPlaces (lastDigits M n)"
    by (auto simp: addCommas_def l_def M_def n_def)
  have dM: "decimalPlaces \<le> length (lastDigits M n)"
    by (simp add: length_lastDigits M_def)
  have lower: "decimalPlaces \<le> length (fractionDigits s)"
    unfolding fr using dM by (rule length_trimZeros_lower)
  have upper: "length (fractionDigits s) \<le> max decimalPlaces 3"
    unfolding fr using length_trimZeros_upper [of decimalPlaces "lastDigits M n"]
    by (simp add: length_lastDigits M_def)
  have digits: "set (fractionDigits s) \<subseteq> set ''0123456789''"
    unfolding fr
    using set_trimZeros [of decimalPlaces "lastDigits M n"] lastDigits_digits [of M n]
    by (rule subset_trans)
  have exact: "length (fractionDigits s) = decimalPlaces" if "v * 10 ^ decimalPlaces \<in> \<int>"
  proof -
    define j where "j = M - decimalPlaces"
    have M: "M = decimalPlaces + j" by (simp add: j_def M_def)
    from rounded_scaled [OF that, of j]
    have "n = nat \<lfloor>\<bar>v\<bar> * 10 ^ decimalPlaces\<rfloor> * 10 ^ j" by (simp add: n_def M)
    then have "lastDigits M n
        = lastDigits decimalPlaces (nat \<lfloor>\<bar>v\<bar> * 10 ^ decimalPlaces\<rfloor>) @ replicate j (CHR ''0'')"
      by (simp only: M lastDigits_scaled)
    then show ?thesis
      by (simp only: fr trimZeros_padded [OF length_lastDigits] length_lastDigits)
  qed
  from s lower upper digits exact show ?thesis by blast
qed

theorem addCommas_fraction_digits_witness:
  "(2::nat) \<le> 100 \<and> (999 :: rat) * 10 ^ 2 \<in> \<int>
   \<and> addCommas 999 ''INR'' 2 = Inr ''999.00''
   \<and> length (fractionDigits ''999.00'') = 2
   \<and> set (fractionDigits ''999.00'') \<subseteq> set ''0123456789''"
  using addCommas_fraction_digits [of 2 999 "''INR''"]
  by (simp add: addCommas_999)

text \<open>
  C4. \<^verbatim>\<open>getHumanizedAmount\<close> should divide the value by the threshold of the first rule it
  reaches, floor the quotient to two decimal places, group it and append the rule's
  symbol. With the rule (1000, K) the value 1999 should give \<^verbatim>\<open>1.99K\<close>; the code gives
  \<^verbatim>\<open>2K\<close>, since \<^verbatim>\<open>getFlooredFixed(1.999, 2)\<close> is 2.
\<close>

theorem getHumanizedAmount_1999:
  "getHumanizedAmount sampleAbbreviations toStr 1999 ''INR'' = Inr ''2K''"
  by (simp add: getHumanizedAmount_def findAbbreviation_def sampleAbbreviations_def
      andThen_def getFlooredFixed_1_999 addCommas_2)

text \<open>
  C5. For every value and currency, a suffix that is none of \<^verbatim>\<open>decimals\<close>, \<^verbatim>\<open>humanize\<close> and
  \<^verbatim>\<open>none\<close> makes \<^verbatim>\<open>formatAmountWithSuffix\<close> return what it returns for \<^verbatim>\<open>none\<close>, and that is
  a string, not an error.
\<close>

theorem formatAmountWithSuffix_unrecognized:
  assumes "suffix \<notin> {''decimals'', ''humanize'', ''none''}"
  shows "formatAmountWithSuffix tbl toStr suffix v cur
           = formatAmountWithSuffix tbl toStr ''none'' v cur
         \<and> (\<exists>s. formatAmountWithSuffix tbl toStr suffix v cur = Inr s)"
proof -
  from assms have eq: "formatAmountWithSuffix tbl toStr suffix v cur
      = formatAmountWithSuffix tbl toStr ''none'' v cur"
    by (simp add: formatAmountWithSuffix_def)
  from floored_then_commas_returns [of 0 0 v cur]
  have "\<exists>s. formatAmountWithSuffix tbl toStr ''none'' v cur = Inr s"
    by (simp add: formatAmountWithSuffix_def)
  with eq show ?thesis by simp
qed

theorem formatAmountWithSuffix_unrecognized_witness:
  "''compact'' \<notin> {''decimals'', ''humanize'', ''none''}
   \<and> formatAmountWithSuffix sampleAbbreviations (\<lambda>x. integerToString \<lfloor>x\<rfloor>)
         ''compact'' 1234567 ''USD''
       = formatAmountWithSuffix sampleAbbreviations (\<lambda>x. integerToString \<lfloor>x\<rfloor>)
           ''none'' 1234567 ''USD''
   \<and> formatAmountWithSuffix sampleAbbreviations (\<lambda>x. integerToString \<lfloor>x\<rfloor>)
         ''compact'' 1234567 ''USD''
       = Inr ''1,234,567''"
proof -
  have h: "''compact'' \<notin> {''decimals'', ''humanize'', ''none''}" by simp
  from formatAmountWithSuffix_unrecognized
    [OF h, of sampleAbbreviations "\<lambda>x. integerToString \<lfloor>x\<rfloor>" 1234567 "''USD''"]
  show ?thesis
    by (simp add: formatAmountWithSuffix_def andThen_def getFlooredFixed_1234567
        addCommas_1234567)
qed




text \<open>
  C7. \<^verbatim>\<open>formatAmountWithSuffix\<close> at the value 1234567, the currency USD and the suffix
  \<^verbatim>\<open>none\<close> gives \<^verbatim>\<open>1,234,567\<close>: groups of three digits and no fraction digits.
\<close>

theorem formatAmountWithSuffix_none_1234567:
  "formatAmountWithSuffix tbl toStr ''none'' 1234567 ''USD'' = Inr ''1,234,567''"
  by (simp add: formatAmountWithSuffix_def andThen_def getFlooredFixed_1234567
      addCommas_1234567)

text \<open>
  C8. Whenever \<^verbatim>\<open>getHumanizedAmount\<close> abbreviates with a rule, the rule is one of the
  currency's table and its threshold is at most the value: the rule it works with is the
  one \<^verbatim>\<open>find\<close> selects, and the function's result is built from that rule.
\<close>

theorem getHumanizedAmount_threshold_le_value:
  assumes "findAbbreviation tbl v cur = Some a"
  shows "abbr_value a \<le> v \<and> a \<in> set (tbl cur)
         \<and> getHumanizedAmount tbl toStr v cur =
             (if abbr_value a = 0 then Inl Unmodelled
              else andThen (getFlooredFixed (v / abbr_value a) 2)
                     (\<lambda>x. andThen (addCommas x cur 0) (\<lambda>s. Inr (s @ abbr_symbol a))))"
proof -
  from assms obtain i
    where i: "i < length (tbl cur)" "abbr_value (tbl cur ! i) \<le> v" "a = tbl cur ! i"
    by (auto simp: findAbbreviation_def find_Some_iff)
  then have "abbr_value a \<le> v" "a \<in> set (tbl cur)" by simp_all
  moreover from assms have "getHumanizedAmount tbl toStr v cur =
             (if abbr_value a = 0 then Inl Unmodelled
              else andThen (getFlooredFixed (v / abbr_value a) 2)
                     (\<lambda>x. andThen (addCommas x cur 0) (\<lambda>s. Inr (s @ abbr_symbol a))))"
    by (simp add: getHumanizedAmount_def)
  ultimately show ?thesis by simp
qed

theorem getHumanizedAmount_threshold_le_value_witness:
  "findAbbreviation sampleAbbreviations 1000 ''INR''
     = Some \<lparr>abbr_value = 1000, abbr_symbol = ''K''\<rparr>
   \<and> abbr_value \<lparr>abbr_value = 1000, abbr_symbol = ''K''\<rparr> \<le> 1000
   \<and> getHumanizedAmount sampleAbbreviations (\<lambda>x. integerToString \<lfloor>x\<rfloor>) 1000 ''INR''
       = Inr ''1K''"
proof -
  have h: "findAbbreviation sampleAbbreviations 1000 ''INR''
      = Some \<lparr>abbr_value = 1000, abbr_symbol = ''K''\<rparr>"
    by (simp add: findAbbreviation_def sampleAbbreviations_def)
  from getHumanizedAmount_threshold_le_value [OF h, of "\<lambda>x. integerToString \<lfloor>x\<rfloor>"] h
  show ?thesis
    by (simp add: andThen_def getFlooredFixed_1 addCommas_1)
qed

text \<open>
  C9. In development mode the Amount entry point raises a diagnostic error, before any
  formatting, for every value whose type is not \<^verbatim>\<open>number\<close> and for every request with the
  intent \<^verbatim>\<open>neutral\<close>; with the development flag off no such error is raised.
\<close>

theorem Amount_dev_checks:
  "(typeof val \<noteq> ''number'' \<longrightarrow>
      Amount tbl toStr True val suffix intent cur
        = Inl (BladeError ''`value` prop must be of type `number` for Amount.'' ''Amount''))
   \<and> (typeof val = ''number'' \<and> intent = Some ''neutral'' \<longrightarrow>
      Amount tbl toStr True val suffix intent cur
        = Inl (BladeError ''`neutral` intent is not supported.'' ''Amount''))
   \<and> (\<forall>msg m. Amount tbl toStr False val suffix intent cur \<noteq> Inl (BladeError msg m))"
proof (intro conjI impI allI)
  assume "typeof val \<noteq> ''number''"
  then show "Amount tbl toStr True val suffix intent cur
        = Inl (BladeError ''`value` prop must be of type `number` for Amount.'' ''Amount'')"
    by (simp add: Amount_def throwBladeError_def)
next
  assume "typeof val = ''number'' \<and> intent = Some ''neutral''"
  then show "Amount tbl toStr True val suffix intent cur
        = Inl (BladeError ''`neutral` intent is not supported.'' ''Amount'')"
    by (simp add: Amount_def throwBladeError_def)
next
  fix msg m
  show "Amount tbl toStr False val suffix intent cur \<noteq> Inl (BladeError msg m)"
    by (cases val) (simp_all add: Amount_def formatAmountWithSuffix_no_BladeError)
qed

theorem Amount_dev_checks_witness:
  "typeof (JSString ''12'') \<noteq> ''number''
   \<and> Amount sampleAbbreviations (\<lambda>x. integerToString \<lfloor>x\<rfloor>) True (JSString ''12'')
         ''decimals'' None ''INR''
        = Inl (BladeError ''`value` prop must be of type `number` for Amount.'' ''Amount'')
   \<and> typeof (JSNumber 12) = ''number''
   \<and> Amount sampleAbbreviations (\<lambda>x. integerToString \<lfloor>x\<rfloor>) True (JSNumber 12)
         ''decimals'' (Some ''neutral'') ''INR''
        = Inl (BladeError ''`neutral` intent is not supported.'' ''Amount'')
   \<and> Amount sampleAbbreviations (\<lambda>x. integerToString \<lfloor>x\<rfloor>) False (JSString ''12'')
         ''decimals'' (Some ''neutral'') ''INR''
        = Inl Unmodelled"
  using
    Amount_dev_checks [of "JSString ''12''" sampleAbbreviations
      "\<lambda>x. integerToString \<lfloor>x\<rfloor>" "''decimals''" None "''INR''"]
    Amount_dev_checks [of "JSNumber 12" sampleAbbreviations
      "\<lambda>x. integerToString \<lfloor>x\<rfloor>" "''decimals''" "Some ''neutral''" "''INR''"]
  by (simp add: Amount_def)

text \<open>
  C10. For every negative value and every currency whose thresholds are all positive,
  \<^verbatim>\<open>getHumanizedAmount\<close> returns \<^verbatim>\<open>value.toString()\<close>: no rule is reached, so there is no
  symbol and no grouping.
\<close>

theorem getHumanizedAmount_negative:
  assumes "v < 0" and "\<forall>a \<in> set (tbl cur). 0 < abbr_value a"
  shows "getHumanizedAmount tbl toStr v cur = Inr (toStr v)"
proof -
  from assms have "\<not> (\<exists>a \<in> set (tbl cur). abbr_value a \<le> v)" by fastforce
  then have "findAbbreviation tbl v cur = None"
    by (simp add: findAbbreviation_def find_None_iff)
  then show ?thesis by (simp add: getHumanizedAmount_def)
qed

theorem getHumanizedAmount_negative_witness:
  "(- 5 :: rat) < 0
   \<and> list_all (\<lambda>a. 0 < abbr_value a) (sampleAbbreviations ''INR'')
   \<and> getHumanizedAmount sampleAbbreviations (\<lambda>x. integerToString \<lfloor>x\<rfloor>) (- 5) ''INR''
       = Inr ''-5''"
proof -
  have neg: "(- 5 :: rat) < 0" by simp
  have pos: "\<forall>a \<in> set (sampleAbbreviations ''INR''). 0 < abbr_value a"
    by (simp add: sampleAbbreviations_def)
  have str: "integerToString \<lfloor>- 5 :: rat\<rfloor> = ''-5''"
    by (simp add: integerToString_def digitsOf_small digitChar_def)
  from getHumanizedAmount_negative [where v = "- 5" and tbl = sampleAbbreviations
      and cur = "''INR''" and toStr = "\<lambda>x. integerToString \<lfloor>x\<rfloor>", OF neg pos] str
  show ?thesis
    by (simp add: sampleAbbreviations_def)
qed

end
